theory Spec2Isabelle
  imports Main
begin

section \<open>Peer.ts: a monitored remote node\<close>

text \<open>
  The class \<^verbatim>\<open>Peer\<close> of \<^verbatim>\<open>src/Peer.ts\<close> wraps a WebSocket and an HTTP client of one
  remote node, polls the node every two seconds, merges every status it receives into a
  running snapshot and raises \<^verbatim>\<open>NODE_STUCK\<close> when the reported height has not grown for
  more than twenty seconds.

  The embedding passes the object's fields explicitly: every method takes the fields
  before the call and returns the fields after it, together with the list of what the
  call did to the outside (events emitted, transport calls issued, console lines), in
  the order the source does it. \<^verbatim>\<open>Date.now()\<close> is an argument of the one method that
  reads it, and the answer of a transport call is an argument of the continuation that
  receives it.
\<close>

subsection \<open>Values and the data received from the node\<close>

text \<open>A JavaScript value as it arrives in a decoded message. Numbers are the integers
  the protocol carries (heights, ports, milliseconds).\<close>

datatype jsval = JUndefined | JNull | JBool bool | JNum int | JStr string

text \<open>
  Modelled from the spec: \<^verbatim>\<open>NodeStatus\<close> is declared in \<^verbatim>\<open>WsApi.ts\<close>, which is not among the
  sources. The spec describes a status report as the node's self-described snapshot:
  the chain height, which every report carries as a number, and version, operating
  system, node identifier and arbitrary additional fields, which a report may lack (a
  later report overwrites the fields it has and leaves the others). \<^verbatim>\<open>Peer.ts\<close> reads
  \<^verbatim>\<open>height\<close> as a number and \<^verbatim>\<open>nonce\<close> by name. Every own property other than
  \<^verbatim>\<open>height\<close> is an entry of \<open>props\<close>, and a property the object does not have is
  \<open>None\<close> there.
\<close>

record NodeStatus =
  height :: int
  props :: "string \<rightharpoonup> jsval"

text \<open>
  Modelled from the spec: \<^verbatim>\<open>PeerInfo\<close> is declared in \<^verbatim>\<open>WsApi.ts\<close> as well; the spec calls
  it a lightweight peer descriptor. \<^verbatim>\<open>Peer.ts\<close> stores and forwards the descriptors
  without reading them.
\<close>

type_synonym PeerInfo = "string \<rightharpoonup> jsval"

text \<open>Reading a property: \<^verbatim>\<open>obj.name\<close> is \<^verbatim>\<open>undefined\<close> when the object has no such
  property.\<close>

definition get_field :: "NodeStatus \<Rightarrow> string \<Rightarrow> jsval" where
  "get_field s name = (case props s name of None \<Rightarrow> JUndefined | Some v \<Rightarrow> v)"

text \<open>\<^verbatim>\<open>Object.assign(target, source)\<close>: every own property of the source is written
  to the target, the target's other properties stay.\<close>

definition object_assign :: "NodeStatus \<Rightarrow> NodeStatus \<Rightarrow> NodeStatus" where
  "object_assign target source =
     \<lparr>height = height source, props = props target ++ props source\<rparr>"

subsection \<open>The class\<close>

datatype PeerEvent = StatusUpdated | PeersUpdated | NodeStuck

datatype PeerState = Online | Offline

record PeerOptions =
  ip :: string
  wsPort :: int
  httpPort :: int
  nethash :: string
  nonce :: "string option"

text \<open>\<^verbatim>\<open>OwnNodeOptions\<close> describes the monitoring node itself; the constructor hands it
  to the WebSocket client and keeps nothing of it.\<close>

record OwnNodeOptions =
  own_httpPort :: int
  own_wsPort :: int
  own_nonce :: string
  own_os :: string
  own_version :: string

text \<open>The fields of a \<^verbatim>\<open>Peer\<close>. The private fields \<^verbatim>\<open>_state\<close>, \<^verbatim>\<open>_status\<close>, \<^verbatim>\<open>_httpActive\<close>
  and \<^verbatim>\<open>_wsServerConnected\<close> carry the names of their getters, which return them as they
  are. \<open>statusUpdateInterval\<close> is \<open>True\<close> while the timer set by the constructor has not
  been cleared.\<close>

record Peer =
  options :: PeerOptions
  peers :: "PeerInfo list"
  lastHeightUpdate :: int
  stuck :: bool
  statusUpdateInterval :: bool
  state :: PeerState
  status :: "NodeStatus option"
  httpActive :: bool
  wsServerConnected :: bool

text \<open>What a call does to the outside. An emitted event carries its arguments; a
  console line carries the three values its template interpolates (address, WebSocket
  port, error).\<close>

datatype Payload = NoPayload | StatusPayload NodeStatus | PeersPayload "PeerInfo list"

datatype Effect =
    Emit PeerEvent Payload
  | HttpGetNodeStatus
  | WsConnect
  | WsGetStatus
  | WsGetPeers
  | WsGetBlocks
  | WsDestroy
  | SetInterval int
  | ClearInterval
  | ConsoleWarn string int string
  | ConsoleError string int string

type_synonym 'a result = "string + 'a"

text \<open>The constructor: the field initialisers, the HTTP probe, the WebSocket
  connection and the two-second timer.\<close>

definition new_Peer :: "PeerOptions \<Rightarrow> OwnNodeOptions \<Rightarrow> Peer \<times> Effect list" where
  "new_Peer opts ownNode =
     (\<lparr>options = opts, peers = [], lastHeightUpdate = 0, stuck = False,
       statusUpdateInterval = True, state = Offline, status = None,
       httpActive = False, wsServerConnected = False\<rparr>,
      [HttpGetNodeStatus, WsConnect, SetInterval 2000])"

text \<open>The probe's \<^verbatim>\<open>then\<close>; its \<^verbatim>\<open>catch\<close> does nothing.\<close>

definition onHttpProbe :: "NodeStatus result \<Rightarrow> Peer \<Rightarrow> Peer \<times> Effect list" where
  "onHttpProbe r p = (case r of Inl err \<Rightarrow> (p, []) | Inr s \<Rightarrow> (p\<lparr>httpActive := True\<rparr>, []))"

text \<open>\<^verbatim>\<open>get nonce()\<close>. An object is truthy, a string is truthy unless it is empty.\<close>

definition get_nonce :: "Peer \<Rightarrow> jsval" where
  "get_nonce p =
     (case status p of
        Some s \<Rightarrow> get_field s ''nonce''
      | None \<Rightarrow>
          (case nonce (options p) of
             Some n \<Rightarrow> if n \<noteq> [] then JStr n else JUndefined
           | None \<Rightarrow> JUndefined))"

text \<open>\<^verbatim>\<open>handleStatusUpdate(status)\<close>, with the value \<^verbatim>\<open>Date.now()\<close> returns during the
  call (one of the two branches that read the clock runs, never both). The first
  statement is the stuck check against the snapshot stored so far; the second stores
  the report itself when nothing was stored and then assigns the report onto the stored
  object; the third emits the report.

  The source stores the first report by reference and assigns every later report onto
  that object. The embedding stores the object's properties: it describes what the
  stored object holds after each call, and what an emitted report holds when it is
  emitted.\<close>

definition handleStatusUpdate :: "int \<Rightarrow> NodeStatus \<Rightarrow> Peer \<Rightarrow> Peer \<times> Effect list" where
  "handleStatusUpdate now st p =
     (let (p1, ev) =
            (if (case status p of None \<Rightarrow> True | Some prev \<Rightarrow> height st > height prev)
             then (p\<lparr>lastHeightUpdate := now, stuck := False\<rparr>, [])
             else if \<not> stuck p \<and> now - lastHeightUpdate p > 20000
             then (p\<lparr>stuck := True\<rparr>, [Emit NodeStuck NoPayload])
             else (p, []));
          target = (case status p1 of None \<Rightarrow> st | Some cur \<Rightarrow> cur);
          p2 = p1\<lparr>status := Some (object_assign target st)\<rparr>
      in (p2, ev @ [Emit StatusUpdated (StatusPayload st)]))"

definition setWebsocketServerConnected :: "bool \<Rightarrow> Peer \<Rightarrow> Peer \<times> Effect list" where
  "setWebsocketServerConnected connected p = (p\<lparr>wsServerConnected := connected\<rparr>, [])"

definition destroy :: "Peer \<Rightarrow> Peer \<times> Effect list" where
  "destroy p = (p\<lparr>statusUpdateInterval := False\<rparr>, [ClearInterval, WsDestroy])"

text \<open>\<^verbatim>\<open>requestBlocks()\<close> asks for the blocks and drops the answer.\<close>

definition requestBlocks :: "Peer \<Rightarrow> Peer \<times> Effect list" where
  "requestBlocks p = (p, [WsGetBlocks])"

definition onClientConnect :: "Peer \<Rightarrow> Peer \<times> Effect list" where
  "onClientConnect p = (p\<lparr>state := Online\<rparr>, [])"

definition onClientDisconnect :: "Peer \<Rightarrow> Peer \<times> Effect list" where
  "onClientDisconnect p = (p\<lparr>state := Offline\<rparr>, [])"

definition onClientError :: "string \<Rightarrow> Peer \<Rightarrow> Peer \<times> Effect list" where
  "onClientError err p = (p, [ConsoleError (ip (options p)) (wsPort (options p)) err])"

subsection \<open>The polling tick\<close>

text \<open>
  \<^verbatim>\<open>updateStatus()\<close> returns at once when the peer is not online and otherwise starts a
  promise chain. Each link of the chain is a function of its own here, since other
  callbacks can run between two links.
\<close>

definition updateStatus_begin :: "Peer \<Rightarrow> Peer \<times> Effect list" where
  "updateStatus_begin p = (if state p \<noteq> Online then (p, []) else (p, [WsGetStatus]))"

text \<open>\<^verbatim>\<open>.then(status => this.handleStatusUpdate(status)).then(() => this.ws.getPeers())\<close>\<close>

definition updateStatus_gotStatus :: "int \<Rightarrow> NodeStatus \<Rightarrow> Peer \<Rightarrow> Peer \<times> Effect list" where
  "updateStatus_gotStatus now st p =
     (case handleStatusUpdate now st p of (p1, ev) \<Rightarrow> (p1, ev @ [WsGetPeers]))"

text \<open>\<^verbatim>\<open>.then(res => { this.peers = res.peers; this.emit(PeersUpdated, res.peers) })\<close>\<close>

definition updateStatus_gotPeers :: "PeerInfo list \<Rightarrow> Peer \<Rightarrow> Peer \<times> Effect list" where
  "updateStatus_gotPeers ps p = (p\<lparr>peers := ps\<rparr>, [Emit PeersUpdated (PeersPayload ps)])"

text \<open>\<^verbatim>\<open>.catch(err => console.warn(...))\<close>\<close>

definition updateStatus_failed :: "string \<Rightarrow> Peer \<Rightarrow> Peer \<times> Effect list" where
  "updateStatus_failed err p = (p, [ConsoleWarn (ip (options p)) (wsPort (options p)) err])"

text \<open>Running one call after another, the effects in order.\<close>

definition and_then ::
    "Peer \<times> Effect list \<Rightarrow> (Peer \<Rightarrow> Peer \<times> Effect list) \<Rightarrow> Peer \<times> Effect list" where
  "and_then r f = (case r of (p, es) \<Rightarrow> (case f p of (p', es') \<Rightarrow> (p', es @ es')))"

text \<open>One whole tick with nothing running between its links: \<open>getStatus\<close> and
  \<open>getPeers\<close> are what the two transport calls answer (\<open>Inl\<close> a rejection), \<open>now\<close> is
  the time at which the status arrives.\<close>

definition updateStatus ::
    "NodeStatus result \<Rightarrow> int \<Rightarrow> PeerInfo list result \<Rightarrow> Peer \<Rightarrow> Peer \<times> Effect list" where
  "updateStatus getStatus now getPeers p =
     (if state p \<noteq> Online then (p, [])
      else and_then (p, [WsGetStatus])
        (\<lambda>p. case getStatus of
           Inl err \<Rightarrow> updateStatus_failed err p
         | Inr st \<Rightarrow>
             and_then (updateStatus_gotStatus now st p)
               (\<lambda>p. case getPeers of
                  Inl err \<Rightarrow> updateStatus_failed err p
                | Inr ps \<Rightarrow> updateStatus_gotPeers ps p)))"

subsection \<open>Runs\<close>

text \<open>A sequence of reports handed to \<^verbatim>\<open>handleStatusUpdate\<close> one after the other, each
  with the time of its call.\<close>

fun handleStatusUpdates :: "(int \<times> NodeStatus) list \<Rightarrow> Peer \<Rightarrow> Peer \<times> Effect list" where
  "handleStatusUpdates [] p = (p, [])"
| "handleStatusUpdates ((now, st) # rest) p =
     and_then (handleStatusUpdate now st p) (handleStatusUpdates rest)"

text \<open>Everything that can happen to a \<^verbatim>\<open>Peer\<close> after its construction: a call of a
  public method, a callback of the WebSocket client, the timer firing, or a promise of
  the constructor or of a tick being settled.\<close>

datatype Op =
    HandleStatusUpdate int NodeStatus
  | SetWebsocketServerConnected bool
  | Destroy
  | RequestBlocks
  | OnClientConnect
  | OnClientDisconnect
  | OnClientError string
  | OnHttpProbe "NodeStatus result"
  | TimerFires
  | GetStatusSettled int "NodeStatus result"
  | GetPeersSettled "PeerInfo list result"

fun apply_op :: "Op \<Rightarrow> Peer \<Rightarrow> Peer \<times> Effect list" where
  "apply_op (HandleStatusUpdate now st) p = handleStatusUpdate now st p"
| "apply_op (SetWebsocketServerConnected b) p = setWebsocketServerConnected b p"
| "apply_op Destroy p = destroy p"
| "apply_op RequestBlocks p = requestBlocks p"
| "apply_op OnClientConnect p = onClientConnect p"
| "apply_op OnClientDisconnect p = onClientDisconnect p"
| "apply_op (OnClientError err) p = onClientError err p"
| "apply_op (OnHttpProbe r) p = onHttpProbe r p"
| "apply_op TimerFires p = updateStatus_begin p"
| "apply_op (GetStatusSettled now r) p =
     (case r of Inl err \<Rightarrow> updateStatus_failed err p
      | Inr st \<Rightarrow> updateStatus_gotStatus now st p)"
| "apply_op (GetPeersSettled r) p =
     (case r of Inl err \<Rightarrow> updateStatus_failed err p
      | Inr ps \<Rightarrow> updateStatus_gotPeers ps p)"

fun run_ops :: "Op list \<Rightarrow> Peer \<Rightarrow> Peer \<times> Effect list" where
  "run_ops [] p = (p, [])"
| "run_ops (x # xs) p = and_then (apply_op x p) (run_ops xs)"

subsection \<open>Reading the effects and the reports\<close>

text \<open>The events among the effects of a call, and how often \<^verbatim>\<open>NODE_STUCK\<close> is among
  them.\<close>

fun is_emit :: "Effect \<Rightarrow> bool" where
  "is_emit (Emit e a) = True"
| "is_emit _ = False"

definition emitted :: "Effect list \<Rightarrow> Effect list" where
  "emitted es = filter is_emit es"

definition stuck_events :: "Effect list \<Rightarrow> nat" where
  "stuck_events es = length (filter (\<lambda>e. e = Emit NodeStuck NoPayload) es)"

text \<open>The stuck flag after each call of a sequence of reports, and the number of
  times a list of flags goes from \<open>False\<close> to \<open>True\<close>, the first flag being the one
  before the first call.\<close>

fun stuck_after :: "(int \<times> NodeStatus) list \<Rightarrow> Peer \<Rightarrow> bool list" where
  "stuck_after [] p = []"
| "stuck_after ((now, st) # rest) p =
     (case handleStatusUpdate now st p of (p', es) \<Rightarrow> stuck p' # stuck_after rest p')"

fun rising_edges :: "bool list \<Rightarrow> nat" where
  "rising_edges (a # b # bs) = (if \<not> a \<and> b then 1 else 0) + rising_edges (b # bs)"
| "rising_edges _ = 0"

text \<open>The merge of a non-empty sequence of reports, oldest first, as the specification
  words it: of every property the value of the most recent report that has the
  property, and the height of the most recent report.\<close>

fun last_reported :: "NodeStatus list \<Rightarrow> string \<rightharpoonup> jsval" where
  "last_reported [] name = None"
| "last_reported (r # rs) name =
     (case last_reported rs name of Some v \<Rightarrow> Some v | None \<Rightarrow> props r name)"

definition merged_reports :: "NodeStatus list \<Rightarrow> NodeStatus" where
  "merged_reports rs = \<lparr>height = height (last rs), props = last_reported rs\<rparr>"

subsection \<open>Example values\<close>

text \<open>A peer configured with the nonce \<open>A\<close>, as the constructor leaves it, and reports
  written as a height and a list of further properties.\<close>

definition example_options :: PeerOptions where
  "example_options =
     \<lparr>ip = ''10.0.0.1'', wsPort = 5001, httpPort = 5000, nethash = ''ab'', nonce = Some ''A''\<rparr>"

definition example_ownNode :: OwnNodeOptions where
  "example_ownNode =
     \<lparr>own_httpPort = 7000, own_wsPort = 7001, own_nonce = ''me'', own_os = ''linux'',
      own_version = ''1.0''\<rparr>"

definition example_peer :: Peer where
  "example_peer = fst (new_Peer example_options example_ownNode)"

definition report :: "int \<Rightarrow> (string \<times> jsval) list \<Rightarrow> NodeStatus" where
  "report h kvs = \<lparr>height = h, props = map_of kvs\<rparr>"

text \<open>Three reports of height 10, each more than twenty seconds after the one before,
  and the peer after the first two of them.\<close>

definition stalled_reports :: "(int \<times> NodeStatus) list" where
  "stalled_reports = [(0, report 10 []), (20001, report 10 []), (40002, report 10 [])]"

definition stuck_peer :: Peer where
  "stuck_peer = fst (handleStatusUpdates [(0, report 10 []), (20001, report 10 [])] example_peer)"

text \<open>Three reports that each carry some of the properties.\<close>

definition versioned_reports :: "(int \<times> NodeStatus) list" where
  "versioned_reports =
     [(0, report 10 [(''version'', JStr ''1.0''), (''os'', JStr ''linux'')]),
      (2000, report 11 [(''version'', JStr ''1.1'')]),
      (4000, report 11 [(''nonce'', JStr ''B'')])]"

text \<open>The peer after one report of height 5, the peer after the WebSocket client has
  connected, and a run through every kind of call.\<close>

definition known_peer :: Peer where
  "known_peer = fst (handleStatusUpdate 0 (report 5 [(''version'', JStr ''1.0'')]) example_peer)"

definition online_peer :: Peer where
  "online_peer = fst (onClientConnect example_peer)"

definition example_ops :: "Op list" where
  "example_ops =
     [OnClientConnect, TimerFires, GetStatusSettled 2000 (Inr (report 11 [])),
      GetPeersSettled (Inl ''timeout''), SetWebsocketServerConnected True, OnClientDisconnect,
      TimerFires, OnClientError ''reset'', OnHttpProbe (Inl ''refused''), RequestBlocks,
      HandleStatusUpdate 4000 (report 3 []), Destroy]"

section \<open>Properties\<close>

subsection \<open>Auxiliary facts\<close>

lemmas example_defs =
  example_peer_def example_options_def example_ownNode_def new_Peer_def report_def

lemmas run_defs =
  handleStatusUpdate_def object_assign_def and_then_def Let_def

lemma fst_and_then: "fst (and_then r f) = fst (f (fst r))"
  by (simp add: and_then_def split: prod.split)

lemma snd_and_then: "snd (and_then r f) = snd r @ snd (f (fst r))"
  by (simp add: and_then_def split: prod.split)

lemma object_assign_self: "object_assign s s = s"
  by (cases s) (simp add: object_assign_def fun_eq_iff map_add_def split: option.split)

text \<open>What \<^verbatim>\<open>handleStatusUpdate\<close> leaves alone, what it stores and what it emits.\<close>

lemma handleStatusUpdate_frame:
  "options (fst (handleStatusUpdate now st p)) = options p"
  "peers (fst (handleStatusUpdate now st p)) = peers p"
  "statusUpdateInterval (fst (handleStatusUpdate now st p)) = statusUpdateInterval p"
  "state (fst (handleStatusUpdate now st p)) = state p"
  "httpActive (fst (handleStatusUpdate now st p)) = httpActive p"
  "wsServerConnected (fst (handleStatusUpdate now st p)) = wsServerConnected p"
  by (simp_all add: handleStatusUpdate_def Let_def split: option.split)

lemma handleStatusUpdate_status:
  "status (fst (handleStatusUpdate now st p)) =
     Some (case status p of None \<Rightarrow> st | Some prev \<Rightarrow> object_assign prev st)"
  by (simp add: handleStatusUpdate_def Let_def object_assign_self split: option.split)

lemma handleStatusUpdate_advance:
  "(case status p of None \<Rightarrow> True | Some prev \<Rightarrow> height prev < height st) \<Longrightarrow>
     lastHeightUpdate (fst (handleStatusUpdate now st p)) = now \<and>
     \<not> stuck (fst (handleStatusUpdate now st p)) \<and>
     snd (handleStatusUpdate now st p) = [Emit StatusUpdated (StatusPayload st)]"
  by (simp add: handleStatusUpdate_def Let_def split: option.split)

lemma handleStatusUpdate_no_advance:
  "status p = Some prev \<Longrightarrow> \<not> height prev < height st \<Longrightarrow>
     lastHeightUpdate (fst (handleStatusUpdate now st p)) = lastHeightUpdate p \<and>
     stuck (fst (handleStatusUpdate now st p)) = (stuck p \<or> 20000 < now - lastHeightUpdate p)"
  by (simp add: handleStatusUpdate_def Let_def)

lemma handleStatusUpdate_effects:
  "snd (handleStatusUpdate now st p) =
     (if \<not> stuck p \<and> stuck (fst (handleStatusUpdate now st p))
      then [Emit NodeStuck NoPayload] else []) @
     [Emit StatusUpdated (StatusPayload st)]"
  by (simp add: handleStatusUpdate_def Let_def split: option.split)

lemma handleStatusUpdate_becomes_stuck:
  "(\<not> stuck p \<and> stuck (fst (handleStatusUpdate now st p))) =
     (\<not> stuck p \<and>
      (case status p of None \<Rightarrow> False | Some prev \<Rightarrow> height st \<le> height prev) \<and>
      20000 < now - lastHeightUpdate p)"
  by (auto simp add: handleStatusUpdate_def Let_def split: option.split)

lemma stuck_events_append: "stuck_events (xs @ ys) = stuck_events xs + stuck_events ys"
  by (simp add: stuck_events_def)

lemma handleStatusUpdate_stuck_events:
  "stuck_events (snd (handleStatusUpdate now st p)) =
     (if \<not> stuck p \<and> stuck (fst (handleStatusUpdate now st p)) then 1 else 0)"
  by (simp add: handleStatusUpdate_effects stuck_events_def)

text \<open>Over a run, the \<^verbatim>\<open>NODE_STUCK\<close> events are counted by the rising edges of the
  flag: induction on the run, the peer generalised.\<close>

lemma handleStatusUpdates_stuck_events:
  "stuck_events (snd (handleStatusUpdates trs p)) = rising_edges (stuck p # stuck_after trs p)"
proof (induction trs arbitrary: p)
  case Nil
  show ?case by (simp add: stuck_events_def)
next
  case (Cons tr trs)
  obtain now st where tr: "tr = (now, st)" by (cases tr)
  obtain p' es where step: "handleStatusUpdate now st p = (p', es)"
    by (cases "handleStatusUpdate now st p")
  have one: "stuck_events es = (if \<not> stuck p \<and> stuck p' then 1 else 0)"
    using handleStatusUpdate_stuck_events [of now st p] by (simp add: step)
  have "stuck_events (snd (handleStatusUpdates (tr # trs) p)) =
          stuck_events es + stuck_events (snd (handleStatusUpdates trs p'))"
    by (simp add: tr step snd_and_then stuck_events_append)
  also have "\<dots> =
      (if \<not> stuck p \<and> stuck p' then 1 else 0) + rising_edges (stuck p' # stuck_after trs p')"
    by (simp only: one Cons.IH)
  also have "\<dots> = rising_edges (stuck p # stuck_after (tr # trs) p)"
    by (simp add: tr step)
  finally show ?case .
qed

lemma stuck_peer_fields:
  "stuck stuck_peer" "lastHeightUpdate stuck_peer = 0" "status stuck_peer = Some (report 10 [])"
  "state stuck_peer = Offline"
  by (simp_all add: stuck_peer_def example_defs run_defs)

lemma known_peer_fields:
  "status known_peer = Some (report 5 [(''version'', JStr ''1.0'')])"
  "lastHeightUpdate known_peer = 0" "\<not> stuck known_peer"
  by (simp_all add: known_peer_def example_defs run_defs)

lemma known_peer_offline: "state known_peer = Offline"
  by (simp add: known_peer_def handleStatusUpdate_frame example_defs)

text \<open>The whole of \<^verbatim>\<open>handleStatusUpdate\<close> written out on the fields: the stuck check,
  the stored properties one by one, and the events.\<close>

lemma handleStatusUpdate_explicit:
  "handleStatusUpdate now st p =
     (let advance = (case status p of None \<Rightarrow> True | Some prev \<Rightarrow> height prev < height st);
          alarm = (\<not> advance \<and> \<not> stuck p \<and> 20000 < now - lastHeightUpdate p)
      in (p\<lparr>lastHeightUpdate := (if advance then now else lastHeightUpdate p),
            stuck := (if advance then False else stuck p \<or> alarm),
            status := Some \<lparr>height = height st,
              props = (\<lambda>name. case props st name of
                         Some v \<Rightarrow> Some v
                       | None \<Rightarrow> (case status p of None \<Rightarrow> None | Some prev \<Rightarrow> props prev name))\<rparr>\<rparr>,
          (if alarm then [Emit NodeStuck NoPayload] else []) @
          [Emit StatusUpdated (StatusPayload st)]))"
  by (cases st)
     (auto simp add: handleStatusUpdate_def Let_def object_assign_def map_add_def fun_eq_iff
        split: option.split)

text \<open>The merge of a run of reports: assigning one report onto another and going on is
  the same as going on with both.\<close>

lemma last_reported_assign:
  "last_reported (object_assign a b # rs) = last_reported (a # b # rs)"
  by (rule ext) (simp add: object_assign_def map_add_def split: option.split)

lemma merged_reports_assign:
  "merged_reports (object_assign a b # rs) = merged_reports (a # b # rs)"
  unfolding merged_reports_def
  by (simp only: last_reported_assign) (simp add: object_assign_def)

lemma merged_reports_single: "merged_reports [s] = s"
  by (simp add: merged_reports_def fun_eq_iff)

lemma handleStatusUpdates_merge_from:
  "status p = Some s0 \<Longrightarrow>
     status (fst (handleStatusUpdates trs p)) = Some (merged_reports (s0 # map snd trs))"
proof (induction trs arbitrary: p s0)
  case Nil
  then show ?case by (simp add: merged_reports_single)
next
  case (Cons tr trs)
  obtain now st where tr: "tr = (now, st)" by (cases tr)
  have "status (fst (handleStatusUpdate now st p)) = Some (object_assign s0 st)"
    by (simp add: handleStatusUpdate_status Cons.prems)
  then have "status (fst (handleStatusUpdates trs (fst (handleStatusUpdate now st p)))) =
      Some (merged_reports (object_assign s0 st # map snd trs))"
    by (rule Cons.IH)
  then show ?case
    by (simp add: tr fst_and_then merged_reports_assign)
qed

lemma handleStatusUpdates_merge_fresh:
  assumes "status p = None" and "trs \<noteq> []"
  shows "status (fst (handleStatusUpdates trs p)) = Some (merged_reports (map snd trs))"
proof -
  obtain now st rest where trs: "trs = (now, st) # rest"
    using assms(2) by (cases trs) auto
  have "status (fst (handleStatusUpdate now st p)) = Some st"
    by (simp add: handleStatusUpdate_status assms(1))
  then have "status (fst (handleStatusUpdates rest (fst (handleStatusUpdate now st p)))) =
      Some (merged_reports (st # map snd rest))"
    by (rule handleStatusUpdates_merge_from)
  then show ?thesis by (simp add: trs fst_and_then)
qed

lemma last_reported_snoc:
  "last_reported (rs @ [r]) name =
     (case props r name of Some v \<Rightarrow> Some v | None \<Rightarrow> last_reported rs name)"
  by (induction rs) (simp_all split: option.split)

text \<open>No call takes a stored status away.\<close>

lemma fst_updateStatus_gotStatus:
  "fst (updateStatus_gotStatus now st p) = fst (handleStatusUpdate now st p)"
  by (simp add: updateStatus_gotStatus_def split: prod.split)

lemma snd_updateStatus_gotStatus:
  "snd (updateStatus_gotStatus now st p) = snd (handleStatusUpdate now st p) @ [WsGetPeers]"
  by (simp add: updateStatus_gotStatus_def split: prod.split)

lemma apply_op_keeps_status:
  "status p \<noteq> None \<Longrightarrow> status (fst (apply_op x p)) \<noteq> None"
  by (cases x)
     (simp_all add: handleStatusUpdate_status setWebsocketServerConnected_def destroy_def
        requestBlocks_def onClientConnect_def onClientDisconnect_def onClientError_def
        onHttpProbe_def updateStatus_begin_def fst_updateStatus_gotStatus
        updateStatus_gotPeers_def updateStatus_failed_def split: sum.split)

lemma run_ops_keeps_status:
  "status p \<noteq> None \<Longrightarrow> status (fst (run_ops ops p)) \<noteq> None"
proof (induction ops arbitrary: p)
  case Nil
  then show ?case by simp
next
  case (Cons x xs)
  from Cons.prems have "status (fst (apply_op x p)) \<noteq> None"
    by (rule apply_op_keeps_status)
  then have "status (fst (run_ops xs (fst (apply_op x p)))) \<noteq> None"
    by (rule Cons.IH)
  then show ?case by (simp add: fst_and_then)
qed

text \<open>A tick whose status call or whose peers call is rejected; a tick as a run of its
  links.\<close>

lemma emitted_handleStatusUpdate:
  "emitted (snd (handleStatusUpdate now st p)) = snd (handleStatusUpdate now st p)"
  by (simp add: handleStatusUpdate_effects emitted_def)

lemma updateStatus_status_rejected:
  "state p = Online \<Longrightarrow>
     updateStatus (Inl err) now getPeers p =
       (p, [WsGetStatus, ConsoleWarn (ip (options p)) (wsPort (options p)) err])"
  by (simp add: updateStatus_def updateStatus_begin_def updateStatus_failed_def and_then_def)

lemma fst_updateStatus_peers_rejected:
  "state p = Online \<Longrightarrow>
     fst (updateStatus (Inr st) now (Inl err) p) = fst (handleStatusUpdate now st p)"
  by (simp add: updateStatus_def fst_and_then updateStatus_begin_def updateStatus_failed_def
        fst_updateStatus_gotStatus)

lemma snd_updateStatus_peers_rejected:
  "state p = Online \<Longrightarrow>
     snd (updateStatus (Inr st) now (Inl err) p) =
       WsGetStatus # snd (handleStatusUpdate now st p) @
       [WsGetPeers, ConsoleWarn (ip (options p)) (wsPort (options p)) err]"
  by (simp add: updateStatus_def fst_and_then snd_and_then updateStatus_begin_def
        updateStatus_failed_def fst_updateStatus_gotStatus snd_updateStatus_gotStatus
        handleStatusUpdate_frame)

lemma updateStatus_as_ops:
  "updateStatus getStatus now getPeers p =
     run_ops (if state p \<noteq> Online then [TimerFires]
              else case getStatus of
                Inl err \<Rightarrow> [TimerFires, GetStatusSettled now getStatus]
              | Inr st \<Rightarrow> [TimerFires, GetStatusSettled now getStatus, GetPeersSettled getPeers]) p"
  by (simp add: updateStatus_def updateStatus_begin_def and_then_def
        split: sum.split prod.split)

subsection \<open>The nonce getter\<close>

text \<open>The getter by cases: no status stored and a non-empty nonce configured, no
  status stored and none configured, a status stored with a nonce, a status stored
  without one. In the last case the configured nonce is not looked at.\<close>

lemma get_nonce_cases:
  "status p = None \<Longrightarrow> nonce (options p) = Some n \<Longrightarrow> n \<noteq> [] \<Longrightarrow> get_nonce p = JStr n"
  "status p = None \<Longrightarrow> nonce (options p) = None \<or> nonce (options p) = Some [] \<Longrightarrow>
     get_nonce p = JUndefined"
  "status p = Some s \<Longrightarrow> props s ''nonce'' = Some v \<Longrightarrow> get_nonce p = v"
  "status p = Some s \<Longrightarrow> props s ''nonce'' = None \<Longrightarrow> get_nonce p = JUndefined"
  by (auto simp add: get_nonce_def get_field_def)

text \<open>
  Claim C1. The getter is to answer the best nonce known, in this order: the nonce of
  the stored status if it has one, else the nonce given at construction, else
  \<^verbatim>\<open>undefined\<close>; so a peer configured with the nonce \<open>A\<close> that has received a report
  without a nonce is to answer \<open>A\<close>. The getter's doc comment says the same (the best
  nonce value available), and its second tier tests the nonce itself. Its first tier
  tests only whether a status is stored and then returns that status's \<^verbatim>\<open>nonce\<close>
  property, whatever it is. At the claim's own input the code therefore answers
  \<^verbatim>\<open>undefined\<close>: before the report the peer answers \<open>A\<close>, the report has no nonce, the
  options still hold \<open>A\<close> after it, and the getter answers \<^verbatim>\<open>undefined\<close>.
\<close>

theorem get_nonce_misses_configured:
  "nonce (options example_peer) = Some ''A'' \<and>
   get_nonce example_peer = JStr ''A'' \<and>
   props (report 10 []) ''nonce'' = None \<and>
   status (fst (handleStatusUpdate 1000 (report 10 []) example_peer)) = Some (report 10 []) \<and>
   nonce (options (fst (handleStatusUpdate 1000 (report 10 []) example_peer))) = Some ''A'' \<and>
   get_nonce (fst (handleStatusUpdate 1000 (report 10 []) example_peer)) = JUndefined \<and>
   get_nonce (fst (handleStatusUpdate 1000 (report 10 []) example_peer)) \<noteq> JStr ''A''"
  by (simp add: example_defs run_defs get_nonce_def get_field_def)

subsection \<open>The stuck flag\<close>

text \<open>
  Claim C2. The stuck flag is edge-triggered. A call of \<^verbatim>\<open>handleStatusUpdate\<close> turns the
  flag from false to true exactly when the flag was false, a status is stored whose
  height is at least the report's, and more than 20000 ms have passed since the last
  recorded height advance. The call emits one \<^verbatim>\<open>NODE_STUCK\<close> when it turns the flag on
  and none otherwise, so none while the flag is already true; over any sequence of
  reports the \<^verbatim>\<open>NODE_STUCK\<close> events are as many as the times the flag went from false to
  true.
\<close>

theorem stuck_edge_triggered:
  "((\<not> stuck p \<and> stuck (fst (handleStatusUpdate now st p))) =
      (\<not> stuck p \<and>
       (case status p of None \<Rightarrow> False | Some prev \<Rightarrow> height st \<le> height prev) \<and>
       20000 < now - lastHeightUpdate p)) \<and>
   stuck_events (snd (handleStatusUpdate now st p)) =
      (if \<not> stuck p \<and> stuck (fst (handleStatusUpdate now st p)) then 1 else 0) \<and>
   (stuck p \<longrightarrow> stuck_events (snd (handleStatusUpdate now st p)) = 0) \<and>
   stuck_events (snd (handleStatusUpdates trs p)) = rising_edges (stuck p # stuck_after trs p)"
proof -
  have "stuck p \<longrightarrow> stuck_events (snd (handleStatusUpdate now st p)) = 0"
    by (simp add: handleStatusUpdate_stuck_events)
  then show ?thesis
    using handleStatusUpdate_becomes_stuck [of p now st]
      handleStatusUpdate_stuck_events [of now st p]
      handleStatusUpdates_stuck_events [of trs p]
    by blast
qed

text \<open>Three reports of height 10 more than twenty seconds apart: the flag is false,
  true, true after them and one \<^verbatim>\<open>NODE_STUCK\<close> is emitted; the third report, which finds
  the flag set, emits none.\<close>

theorem stuck_edge_triggered_witness:
  "stuck_events (snd (handleStatusUpdates stalled_reports example_peer)) = 1 \<and>
   stuck_after stalled_reports example_peer = [False, True, True] \<and>
   stuck stuck_peer \<and>
   stuck_events (snd (handleStatusUpdate 40002 (report 10 []) stuck_peer)) = 0"
proof -
  have flags: "stuck_after stalled_reports example_peer = [False, True, True]"
    by (simp add: stalled_reports_def example_defs run_defs)
  have "stuck_events (snd (handleStatusUpdates stalled_reports example_peer)) =
          rising_edges (stuck example_peer # stuck_after stalled_reports example_peer)"
    using stuck_edge_triggered [of example_peer 0 "report 10 []" stalled_reports] by blast
  moreover have "\<not> stuck example_peer"
    by (simp add: example_defs)
  ultimately have one: "stuck_events (snd (handleStatusUpdates stalled_reports example_peer)) = 1"
    by (simp add: flags)
  have s: "stuck stuck_peer" by (rule stuck_peer_fields)
  have "stuck_events (snd (handleStatusUpdate 40002 (report 10 []) stuck_peer)) = 0"
    using stuck_edge_triggered [of stuck_peer 40002 "report 10 []" "[]"] s by blast
  with one flags s show ?thesis by simp
qed

subsection \<open>The stored snapshot\<close>

text \<open>
  Claim C3. After any sequence of reports the stored status is the property-wise merge
  of all reports received so far: it has the height of the last report and, of every
  property, the value of the most recent report that has the property, so that a
  property an earlier report had and later reports lack keeps its earlier value. The
  same holds from a peer that already stores a snapshot, the snapshot counting as the
  first report.
\<close>

theorem status_merges_reports:
  "(status p = None \<and> trs \<noteq> [] \<longrightarrow>
      status (fst (handleStatusUpdates trs p)) = Some (merged_reports (map snd trs))) \<and>
   (status p = Some s0 \<longrightarrow>
      status (fst (handleStatusUpdates trs p)) = Some (merged_reports (s0 # map snd trs))) \<and>
   height (merged_reports (rs @ [r])) = height r \<and>
   props (merged_reports (rs @ [r])) name =
     (case props r name of Some v \<Rightarrow> Some v | None \<Rightarrow> props (merged_reports rs) name)"
proof -
  have "props (merged_reports (rs @ [r])) name =
     (case props r name of Some v \<Rightarrow> Some v | None \<Rightarrow> props (merged_reports rs) name)"
    by (simp add: merged_reports_def last_reported_snoc split: option.split)
  moreover have "height (merged_reports (rs @ [r])) = height r"
    by (simp add: merged_reports_def)
  ultimately show ?thesis
    using handleStatusUpdates_merge_fresh [of p trs] handleStatusUpdates_merge_from [of p s0 trs]
    by blast
qed

text \<open>Version and system in the first report, a new version in the second, a nonce in
  the third: the snapshot has the new version, the system, the nonce and no broadhash.\<close>

theorem status_merges_reports_witness:
  "status example_peer = None \<and> versioned_reports \<noteq> [] \<and>
   map_option (\<lambda>s. (height s, props s ''version'', props s ''os'', props s ''nonce'',
                    props s ''broadhash''))
     (status (fst (handleStatusUpdates versioned_reports example_peer))) =
   Some (11, Some (JStr ''1.1''), Some (JStr ''linux''), Some (JStr ''B''), None)"
proof -
  have a: "status example_peer = None" by (simp add: example_defs)
  have b: "versioned_reports \<noteq> []" by (simp add: versioned_reports_def)
  have "status (fst (handleStatusUpdates versioned_reports example_peer)) =
          Some (merged_reports (map snd versioned_reports))"
    using status_merges_reports [of example_peer versioned_reports] a b by blast
  then show ?thesis
    using a b by (simp add: versioned_reports_def merged_reports_def report_def)
qed

subsection \<open>The order inside \<^verbatim>\<open>handleStatusUpdate\<close>\<close>

text \<open>
  Claim C4. Within one call of \<^verbatim>\<open>handleStatusUpdate\<close> with a status stored, the stuck
  check compares the report's height with the height of the snapshot stored before the
  call: a greater height records the time and clears the flag, any other height leaves
  the time and sets the flag once more than 20000 ms have passed; the check is made on
  every such call. The snapshot stored afterwards is the report assigned onto the
  earlier snapshot, and the \<^verbatim>\<open>STATUS_UPDATED\<close> event, the last effect of every call,
  carries the report as it came, not that merge.
\<close>

theorem stuck_check_precedes_merge:
  "(status p = Some prev \<longrightarrow>
      (height prev < height st \<longrightarrow>
         lastHeightUpdate (fst (handleStatusUpdate now st p)) = now \<and>
         \<not> stuck (fst (handleStatusUpdate now st p))) \<and>
      (\<not> height prev < height st \<longrightarrow>
         lastHeightUpdate (fst (handleStatusUpdate now st p)) = lastHeightUpdate p \<and>
         stuck (fst (handleStatusUpdate now st p)) =
           (stuck p \<or> 20000 < now - lastHeightUpdate p)) \<and>
      status (fst (handleStatusUpdate now st p)) = Some (object_assign prev st)) \<and>
   snd (handleStatusUpdate now st p) =
     (if \<not> stuck p \<and> stuck (fst (handleStatusUpdate now st p))
      then [Emit NodeStuck NoPayload] else []) @
     [Emit StatusUpdated (StatusPayload st)]"
proof -
  have "status (fst (handleStatusUpdate now st p)) = Some (object_assign prev st)"
    if "status p = Some prev"
    using that by (simp add: handleStatusUpdate_status)
  moreover have "lastHeightUpdate (fst (handleStatusUpdate now st p)) = now \<and>
      \<not> stuck (fst (handleStatusUpdate now st p))"
    if "status p = Some prev" and "height prev < height st"
    using handleStatusUpdate_advance [where p = p and st = st and now = now] that by simp
  moreover have "lastHeightUpdate (fst (handleStatusUpdate now st p)) = lastHeightUpdate p \<and>
      stuck (fst (handleStatusUpdate now st p)) = (stuck p \<or> 20000 < now - lastHeightUpdate p)"
    if "status p = Some prev" and "\<not> height prev < height st"
    using that by (rule handleStatusUpdate_no_advance)
  ultimately show ?thesis
    using handleStatusUpdate_effects [of now st p] by blast
qed

text \<open>Height 5 and a version stored, a report of height 10 and nothing else: the
  advance is seen, although the merged snapshot's height is not below the report's, and
  the event carries the bare report, which differs from the merged snapshot. A report
  of height 5 after thirty seconds instead: the time stays, the flag is set and
  \<^verbatim>\<open>NODE_STUCK\<close> comes before \<^verbatim>\<open>STATUS_UPDATED\<close>.\<close>

theorem stuck_check_precedes_merge_witness:
  "status known_peer = Some (report 5 [(''version'', JStr ''1.0'')]) \<and>
   height (report 5 [(''version'', JStr ''1.0'')]) < height (report 10 []) \<and>
   lastHeightUpdate (fst (handleStatusUpdate 30000 (report 10 []) known_peer)) = 30000 \<and>
   \<not> stuck (fst (handleStatusUpdate 30000 (report 10 []) known_peer)) \<and>
   status (fst (handleStatusUpdate 30000 (report 10 []) known_peer)) =
     Some (report 10 [(''version'', JStr ''1.0'')]) \<and>
   \<not> height (report 10 [(''version'', JStr ''1.0'')]) < height (report 10 []) \<and>
   snd (handleStatusUpdate 30000 (report 10 []) known_peer) =
     [Emit StatusUpdated (StatusPayload (report 10 []))] \<and>
   report 10 [] \<noteq> report 10 [(''version'', JStr ''1.0'')] \<and>
   \<not> height (report 5 [(''version'', JStr ''1.0'')]) < height (report 5 []) \<and>
   lastHeightUpdate (fst (handleStatusUpdate 30000 (report 5 []) known_peer)) = 0 \<and>
   stuck (fst (handleStatusUpdate 30000 (report 5 []) known_peer)) \<and>
   snd (handleStatusUpdate 30000 (report 5 []) known_peer) =
     [Emit NodeStuck NoPayload, Emit StatusUpdated (StatusPayload (report 5 []))]"
proof -
  have g: "\<not> height (report 5 [(''version'', JStr ''1.0'')]) < height (report 5 [])"
    by (simp add: report_def)
  have h: "lastHeightUpdate known_peer = 0" by (rule known_peer_fields)
  have a: "status known_peer = Some (report 5 [(''version'', JStr ''1.0'')])"
    by (rule known_peer_fields)
  have b: "height (report 5 [(''version'', JStr ''1.0'')]) < height (report 10 [])"
    by (simp add: report_def)
  have c: "object_assign (report 5 [(''version'', JStr ''1.0'')]) (report 10 []) =
      report 10 [(''version'', JStr ''1.0'')]"
    by (simp add: object_assign_def report_def)
  have d: "report 10 [] \<noteq> report 10 [(''version'', JStr ''1.0'')]"
  proof
    assume "report 10 [] = report 10 [(''version'', JStr ''1.0'')]"
    then have "props (report 10 []) ''version'' =
        props (report 10 [(''version'', JStr ''1.0'')]) ''version''"
      by simp
    then show False by (simp add: report_def)
  qed
  have e: "\<not> stuck known_peer" by (rule known_peer_fields)
  have f: "\<not> height (report 10 [(''version'', JStr ''1.0'')]) < height (report 10 [])"
    by (simp add: report_def)
  show ?thesis
    using stuck_check_precedes_merge
      [of known_peer "report 5 [(''version'', JStr ''1.0'')]" "report 10 []" 30000]
      stuck_check_precedes_merge
      [of known_peer "report 5 [(''version'', JStr ''1.0'')]" "report 5 []" 30000]
      a b c d e f g h
    by simp
qed

text \<open>
  Claim C5. If no status is stored or the report's height is greater than the stored
  one, the call records the current time as the last height advance, sets the stuck
  flag to false and emits \<^verbatim>\<open>STATUS_UPDATED\<close> and nothing else: leaving the stuck state
  is silent.
\<close>

theorem height_advance_resets_silently:
  "status p = None \<or> (\<exists>prev. status p = Some prev \<and> height prev < height st) \<Longrightarrow>
     lastHeightUpdate (fst (handleStatusUpdate now st p)) = now \<and>
     \<not> stuck (fst (handleStatusUpdate now st p)) \<and>
     snd (handleStatusUpdate now st p) = [Emit StatusUpdated (StatusPayload st)]"
  by (rule handleStatusUpdate_advance) (auto split: option.split)

text \<open>The stuck peer receives height 11, and the fresh peer its first report.\<close>

theorem height_advance_resets_silently_witness:
  "stuck stuck_peer \<and> status stuck_peer = Some (report 10 []) \<and>
   height (report 10 []) < height (report 11 []) \<and>
   lastHeightUpdate (fst (handleStatusUpdate 22000 (report 11 []) stuck_peer)) = 22000 \<and>
   \<not> stuck (fst (handleStatusUpdate 22000 (report 11 []) stuck_peer)) \<and>
   snd (handleStatusUpdate 22000 (report 11 []) stuck_peer) =
     [Emit StatusUpdated (StatusPayload (report 11 []))] \<and>
   status example_peer = None \<and>
   lastHeightUpdate (fst (handleStatusUpdate 7 (report 0 []) example_peer)) = 7"
proof -
  have a: "stuck stuck_peer" and b: "status stuck_peer = Some (report 10 [])"
    by (rule stuck_peer_fields)+
  have c: "height (report 10 []) < height (report 11 [])"
    by (simp add: report_def)
  have d: "status example_peer = None" by (simp add: example_defs)
  from b c have "status stuck_peer = None \<or>
      (\<exists>prev. status stuck_peer = Some prev \<and> height prev < height (report 11 []))"
    by simp
  from height_advance_resets_silently [OF this, of 22000]
    height_advance_resets_silently [of example_peer "report 0 []" 7] a b c d
  show ?thesis by simp
qed

text \<open>
  Claim C6. Once a report has been handled, a status is stored for ever after: every
  later call (further reports, the timer firing and the links of a tick, the callbacks
  of the WebSocket client, the HTTP probe, \<^verbatim>\<open>setWebsocketServerConnected\<close>,
  \<^verbatim>\<open>requestBlocks\<close>, \<^verbatim>\<open>destroy\<close>) replaces or merges the snapshot and never unsets it.
\<close>

theorem status_never_unset:
  "status (fst (handleStatusUpdate now st p)) \<noteq> None \<and>
   (status p \<noteq> None \<longrightarrow> status (fst (apply_op x p)) \<noteq> None) \<and>
   (status p \<noteq> None \<longrightarrow> status (fst (run_ops ops p)) \<noteq> None) \<and>
   status (fst (run_ops ops (fst (handleStatusUpdate now st p)))) \<noteq> None"
  using handleStatusUpdate_status [of now st p] apply_op_keeps_status [of p x]
    run_ops_keeps_status [of p ops]
    run_ops_keeps_status [of "fst (handleStatusUpdate now st p)" ops]
  by simp

text \<open>A run through every kind of call after a first report.\<close>

theorem status_never_unset_witness:
  "status (fst (handleStatusUpdate 0 (report 10 []) example_peer)) \<noteq> None \<and>
   status (fst (run_ops example_ops (fst (handleStatusUpdate 0 (report 10 []) example_peer)))) =
     Some (report 3 []) \<and>
   status (fst (run_ops example_ops (fst (handleStatusUpdate 0 (report 10 []) example_peer)))) \<noteq>
     None \<and>
   status known_peer \<noteq> None \<and>
   status (fst (apply_op Destroy known_peer)) \<noteq> None \<and>
   status (fst (run_ops example_ops known_peer)) \<noteq> None"
proof -
  have k: "status known_peer \<noteq> None" by (simp add: known_peer_fields)
  have "status (fst (run_ops example_ops (fst (handleStatusUpdate 0 (report 10 []) example_peer)))) =
     Some (report 3 [])"
    by (simp add: example_ops_def example_defs run_defs setWebsocketServerConnected_def
          destroy_def requestBlocks_def onClientConnect_def onClientDisconnect_def
          onClientError_def onHttpProbe_def updateStatus_begin_def updateStatus_gotStatus_def
          updateStatus_gotPeers_def updateStatus_failed_def)
  then show ?thesis
    using status_never_unset [of 0 "report 10 []" example_peer _ example_ops]
      status_never_unset [of _ _ known_peer Destroy example_ops] k
    by simp
qed

subsection \<open>The polling tick\<close>

text \<open>
  Claim C7. When a transport call of a tick is rejected, the rest of the tick is left
  out and the rejection goes to \<^verbatim>\<open>console.warn\<close>; nothing is thrown. If the status call
  is rejected the peer is unchanged and no event is emitted. If the peers call is
  rejected the peer is as the handling of the status left it, the events are those of
  that handling, the peer list is unchanged and \<^verbatim>\<open>PEERS_UPDATED\<close> is not emitted. In
  both cases the timer is not cleared and the peer stays online, so the next tick runs
  as any other. The \<^verbatim>\<open>catch\<close> link by itself changes nothing, whatever ran before it.
\<close>

theorem updateStatus_fetch_failure:
  "state p = Online \<Longrightarrow>
     updateStatus (Inl err) now getPeers p =
       (p, [WsGetStatus, ConsoleWarn (ip (options p)) (wsPort (options p)) err]) \<and>
     emitted (snd (updateStatus (Inl err) now getPeers p)) = [] \<and>
     fst (updateStatus (Inr st) now (Inl err) p) = fst (handleStatusUpdate now st p) \<and>
     snd (updateStatus (Inr st) now (Inl err) p) =
       WsGetStatus # snd (handleStatusUpdate now st p) @
       [WsGetPeers, ConsoleWarn (ip (options p)) (wsPort (options p)) err] \<and>
     emitted (snd (updateStatus (Inr st) now (Inl err) p)) = snd (handleStatusUpdate now st p) \<and>
     peers (fst (updateStatus (Inr st) now (Inl err) p)) = peers p \<and>
     statusUpdateInterval (fst (updateStatus (Inr st) now (Inl err) p)) = statusUpdateInterval p \<and>
     state (fst (updateStatus (Inr st) now (Inl err) p)) = Online \<and>
     apply_op (GetStatusSettled now (Inl err)) q =
       (q, [ConsoleWarn (ip (options q)) (wsPort (options q)) err]) \<and>
     apply_op (GetPeersSettled (Inl err)) q =
       (q, [ConsoleWarn (ip (options q)) (wsPort (options q)) err])"
proof -
  assume on: "state p = Online"
  have a: "updateStatus (Inl err) now getPeers p =
       (p, [WsGetStatus, ConsoleWarn (ip (options p)) (wsPort (options p)) err])"
    using on by (rule updateStatus_status_rejected)
  have b: "emitted (snd (updateStatus (Inl err) now getPeers p)) = []"
    by (simp add: a emitted_def)
  have c: "fst (updateStatus (Inr st) now (Inl err) p) = fst (handleStatusUpdate now st p)"
    using on by (rule fst_updateStatus_peers_rejected)
  have d: "snd (updateStatus (Inr st) now (Inl err) p) =
       WsGetStatus # snd (handleStatusUpdate now st p) @
       [WsGetPeers, ConsoleWarn (ip (options p)) (wsPort (options p)) err]"
    using on by (rule snd_updateStatus_peers_rejected)
  have e: "emitted (snd (updateStatus (Inr st) now (Inl err) p)) =
      snd (handleStatusUpdate now st p)"
    using emitted_handleStatusUpdate [of now st p] by (simp add: d emitted_def)
  have f: "peers (fst (updateStatus (Inr st) now (Inl err) p)) = peers p"
    "statusUpdateInterval (fst (updateStatus (Inr st) now (Inl err) p)) = statusUpdateInterval p"
    "state (fst (updateStatus (Inr st) now (Inl err) p)) = Online"
    by (simp_all add: c handleStatusUpdate_frame on)
  have g: "apply_op (GetStatusSettled now (Inl err)) q =
       (q, [ConsoleWarn (ip (options q)) (wsPort (options q)) err])"
    "apply_op (GetPeersSettled (Inl err)) q =
       (q, [ConsoleWarn (ip (options q)) (wsPort (options q)) err])"
    by (simp_all add: updateStatus_failed_def)
  from a b c d e f g show ?thesis by blast
qed

text \<open>The connected peer, with the status call timing out and with the peers call
  timing out.\<close>

theorem updateStatus_fetch_failure_witness:
  "state online_peer = Online \<and>
   updateStatus (Inl ''timeout'') 2000 (Inr []) online_peer =
     (online_peer, [WsGetStatus, ConsoleWarn ''10.0.0.1'' 5001 ''timeout'']) \<and>
   updateStatus (Inr (report 10 [])) 2000 (Inl ''timeout'') online_peer =
     (online_peer\<lparr>lastHeightUpdate := 2000, status := Some (report 10 [])\<rparr>,
      [WsGetStatus, Emit StatusUpdated (StatusPayload (report 10 [])), WsGetPeers,
       ConsoleWarn ''10.0.0.1'' 5001 ''timeout''])"
proof -
  have on: "state online_peer = Online"
    by (simp add: online_peer_def onClientConnect_def)
  have opts: "ip (options online_peer) = ''10.0.0.1''" "wsPort (options online_peer) = 5001"
    by (simp_all add: online_peer_def onClientConnect_def example_defs)
  have h: "handleStatusUpdate 2000 (report 10 []) online_peer =
     (online_peer\<lparr>lastHeightUpdate := 2000, status := Some (report 10 [])\<rparr>,
      [Emit StatusUpdated (StatusPayload (report 10 []))])"
    by (simp add: online_peer_def onClientConnect_def example_defs run_defs)
  show ?thesis
    using updateStatus_fetch_failure [OF on, of "''timeout''" 2000 "Inr []" "report 10 []"]
    by (simp add: on opts h prod_eq_iff)
qed

text \<open>
  Claim C8. A tick that fires while the state is not \<^verbatim>\<open>Online\<close> does nothing: no
  transport call is made, no event is emitted and no field changes.
\<close>

theorem updateStatus_offline_noop:
  "state p \<noteq> Online \<Longrightarrow>
     updateStatus getStatus now getPeers p = (p, []) \<and> apply_op TimerFires p = (p, [])"
  by (simp add: updateStatus_def updateStatus_begin_def)

text \<open>The peer before it has connected and after it has been disconnected; the
  connected peer's tick is not empty.\<close>

theorem updateStatus_offline_noop_witness:
  "state example_peer \<noteq> Online \<and>
   updateStatus (Inr (report 10 [])) 2000 (Inr []) example_peer = (example_peer, []) \<and>
   state (fst (onClientDisconnect online_peer)) \<noteq> Online \<and>
   updateStatus (Inr (report 10 [])) 2000 (Inr []) (fst (onClientDisconnect online_peer)) =
     (fst (onClientDisconnect online_peer), []) \<and>
   updateStatus (Inr (report 10 [])) 2000 (Inr []) online_peer \<noteq> (online_peer, [])"
proof -
  have a: "state example_peer \<noteq> Online"
    by (simp add: example_defs)
  have b: "state (fst (onClientDisconnect online_peer)) \<noteq> Online"
    by (simp add: onClientDisconnect_def)
  have c: "updateStatus (Inr (report 10 [])) 2000 (Inr []) online_peer \<noteq> (online_peer, [])"
    by (simp add: updateStatus_def updateStatus_begin_def online_peer_def onClientConnect_def
          and_then_def split: prod.split)
  from updateStatus_offline_noop [OF a] updateStatus_offline_noop [OF b] a b c
  show ?thesis by simp
qed

subsection \<open>Independence of the calls\<close>

text \<open>
  Claim C9. The incoming-link flag and the connection state are independent:
  \<^verbatim>\<open>setWebsocketServerConnected(b)\<close> sets the flag and changes nothing else, the
  disconnect callback sets the state to \<^verbatim>\<open>Offline\<close> and changes nothing else, and
  neither has an effect outside. Marking the incoming link and then disconnecting
  leaves the flag true and the state \<^verbatim>\<open>Offline\<close>.
\<close>

theorem incoming_link_independent:
  "fst (setWebsocketServerConnected b p) = p\<lparr>wsServerConnected := b\<rparr> \<and>
   snd (setWebsocketServerConnected b p) = [] \<and>
   state (fst (setWebsocketServerConnected b p)) = state p \<and>
   fst (onClientDisconnect p) = p\<lparr>state := Offline\<rparr> \<and>
   snd (onClientDisconnect p) = [] \<and>
   wsServerConnected (fst (onClientDisconnect p)) = wsServerConnected p \<and>
   wsServerConnected (fst (onClientDisconnect (fst (setWebsocketServerConnected True p)))) \<and>
   state (fst (onClientDisconnect (fst (setWebsocketServerConnected True p)))) = Offline"
  by (simp add: setWebsocketServerConnected_def onClientDisconnect_def)

theorem incoming_link_independent_witness:
  "state online_peer = Online \<and> \<not> wsServerConnected online_peer \<and>
   wsServerConnected (fst (onClientDisconnect (fst (setWebsocketServerConnected True online_peer)))) \<and>
   state (fst (onClientDisconnect (fst (setWebsocketServerConnected True online_peer)))) = Offline \<and>
   fst (onClientDisconnect (fst (setWebsocketServerConnected True online_peer))) =
     online_peer\<lparr>state := Offline, wsServerConnected := True\<rparr>"
proof -
  have "state online_peer = Online" "\<not> wsServerConnected online_peer"
    by (simp_all add: online_peer_def onClientConnect_def example_defs)
  then show ?thesis
    using incoming_link_independent [of True online_peer]
      incoming_link_independent [of True "fst (setWebsocketServerConnected True online_peer)"]
    by simp
qed

text \<open>
  Claim C10. \<^verbatim>\<open>handleStatusUpdate\<close> does not look at the connection state: called while
  the state is \<^verbatim>\<open>Offline\<close> it does exactly what it does while \<^verbatim>\<open>Online\<close>, and it leaves
  the state as it is. What it does while \<^verbatim>\<open>Offline\<close> is the full ingestion: the stuck
  check (a greater height than the stored one, or no stored status, records the time
  and clears the flag; otherwise the flag is set and \<^verbatim>\<open>NODE_STUCK\<close> emitted once more
  than 20000 ms have passed with the flag off), the merge (the report's height, every
  property from the report if it has the property and from the stored status if not)
  and the \<^verbatim>\<open>STATUS_UPDATED\<close> event with the report. Only the tick tests the state: with
  the same report arriving through a tick of an offline peer nothing happens.
\<close>

theorem handleStatusUpdate_not_gated:
  "handleStatusUpdate now st (p\<lparr>state := Offline\<rparr>) =
     (case handleStatusUpdate now st (p\<lparr>state := Online\<rparr>) of
        (p', es) \<Rightarrow> (p'\<lparr>state := Offline\<rparr>, es)) \<and>
   state (fst (handleStatusUpdate now st p)) = state p \<and>
   status (fst (handleStatusUpdate now st p)) =
     Some (case status p of None \<Rightarrow> st | Some prev \<Rightarrow> object_assign prev st) \<and>
   last (snd (handleStatusUpdate now st p)) = Emit StatusUpdated (StatusPayload st) \<and>
   (state p = Offline \<longrightarrow> updateStatus (Inr st) now getPeers p = (p, [])) \<and>
   (state p = Offline \<longrightarrow>
      handleStatusUpdate now st p =
        (let advance = (case status p of None \<Rightarrow> True | Some prev \<Rightarrow> height prev < height st);
             alarm = (\<not> advance \<and> \<not> stuck p \<and> 20000 < now - lastHeightUpdate p)
         in (p\<lparr>lastHeightUpdate := (if advance then now else lastHeightUpdate p),
               stuck := (if advance then False else stuck p \<or> alarm),
               status := Some \<lparr>height = height st,
                 props = (\<lambda>name. case props st name of
                            Some v \<Rightarrow> Some v
                          | None \<Rightarrow>
                              (case status p of None \<Rightarrow> None | Some prev \<Rightarrow> props prev name))\<rparr>\<rparr>,
             (if alarm then [Emit NodeStuck NoPayload] else []) @
             [Emit StatusUpdated (StatusPayload st)])))"
proof -
  have "handleStatusUpdate now st (p\<lparr>state := Offline\<rparr>) =
     (case handleStatusUpdate now st (p\<lparr>state := Online\<rparr>) of
        (p', es) \<Rightarrow> (p'\<lparr>state := Offline\<rparr>, es))"
    by (simp add: handleStatusUpdate_def Let_def split: option.split)
  moreover have "last (snd (handleStatusUpdate now st p)) = Emit StatusUpdated (StatusPayload st)"
    by (simp add: handleStatusUpdate_effects)
  moreover have "state p = Offline \<longrightarrow> updateStatus (Inr st) now getPeers p = (p, [])"
    by (simp add: updateStatus_def)
  moreover note handleStatusUpdate_explicit [of now st p]
    handleStatusUpdate_frame(4) [of now st p] handleStatusUpdate_status [of now st p]
  ultimately show ?thesis by blast
qed

text \<open>A peer that never connected, with height 5 and a version stored: a report of
  height 5 with the system, thirty seconds later, sets the flag, emits \<^verbatim>\<open>NODE_STUCK\<close>
  and \<^verbatim>\<open>STATUS_UPDATED\<close> and leaves version and system stored, while a tick with that
  report does nothing. The stuck peer, which never connected either, receives height
  11 and recovers as it does when online.\<close>

theorem handleStatusUpdate_not_gated_witness:
  "state known_peer = Offline \<and>
   state (fst (handleStatusUpdate 30000 (report 5 [(''os'', JStr ''linux'')]) known_peer)) = Offline \<and>
   lastHeightUpdate (fst (handleStatusUpdate 30000 (report 5 [(''os'', JStr ''linux'')]) known_peer)) = 0 \<and>
   stuck (fst (handleStatusUpdate 30000 (report 5 [(''os'', JStr ''linux'')]) known_peer)) \<and>
   map_option (\<lambda>s. (height s, props s ''version'', props s ''os'', props s ''nonce''))
     (status (fst (handleStatusUpdate 30000 (report 5 [(''os'', JStr ''linux'')]) known_peer))) =
     Some (5, Some (JStr ''1.0''), Some (JStr ''linux''), None) \<and>
   snd (handleStatusUpdate 30000 (report 5 [(''os'', JStr ''linux'')]) known_peer) =
     [Emit NodeStuck NoPayload,
      Emit StatusUpdated (StatusPayload (report 5 [(''os'', JStr ''linux'')]))] \<and>
   updateStatus (Inr (report 5 [(''os'', JStr ''linux'')])) 30000 (Inr []) known_peer =
     (known_peer, []) \<and>
   state stuck_peer = Offline \<and>
   handleStatusUpdate 22000 (report 11 []) stuck_peer =
     (stuck_peer\<lparr>lastHeightUpdate := 22000, stuck := False, status := Some (report 11 [])\<rparr>,
      [Emit StatusUpdated (StatusPayload (report 11 []))]) \<and>
   handleStatusUpdate 22000 (report 11 []) (stuck_peer\<lparr>state := Online\<rparr>) =
     (stuck_peer\<lparr>lastHeightUpdate := 22000, stuck := False, status := Some (report 11 []),
        state := Online\<rparr>,
      [Emit StatusUpdated (StatusPayload (report 11 []))])"
proof -
  have koff: "state known_peer = Offline" by (rule known_peer_offline)
  have k: "status known_peer = Some (report 5 [(''version'', JStr ''1.0'')])"
    "lastHeightUpdate known_peer = 0" "\<not> stuck known_peer"
    by (rule known_peer_fields)+
  have first: "state (fst (handleStatusUpdate 30000 (report 5 [(''os'', JStr ''linux'')]) known_peer)) = Offline \<and>
   lastHeightUpdate (fst (handleStatusUpdate 30000 (report 5 [(''os'', JStr ''linux'')]) known_peer)) = 0 \<and>
   stuck (fst (handleStatusUpdate 30000 (report 5 [(''os'', JStr ''linux'')]) known_peer)) \<and>
   map_option (\<lambda>s. (height s, props s ''version'', props s ''os'', props s ''nonce''))
     (status (fst (handleStatusUpdate 30000 (report 5 [(''os'', JStr ''linux'')]) known_peer))) =
     Some (5, Some (JStr ''1.0''), Some (JStr ''linux''), None) \<and>
   snd (handleStatusUpdate 30000 (report 5 [(''os'', JStr ''linux'')]) known_peer) =
     [Emit NodeStuck NoPayload,
      Emit StatusUpdated (StatusPayload (report 5 [(''os'', JStr ''linux'')]))] \<and>
   updateStatus (Inr (report 5 [(''os'', JStr ''linux'')])) 30000 (Inr []) known_peer =
     (known_peer, [])"
    using handleStatusUpdate_not_gated
      [of 30000 "report 5 [(''os'', JStr ''linux'')]" known_peer "Inr []"] koff k
    by (simp add: Let_def report_def)
  have off: "state stuck_peer = Offline" by (rule stuck_peer_fields)
  then have same: "stuck_peer\<lparr>state := Offline\<rparr> = stuck_peer" by simp
  have on: "handleStatusUpdate 22000 (report 11 []) (stuck_peer\<lparr>state := Online\<rparr>) =
     (stuck_peer\<lparr>lastHeightUpdate := 22000, stuck := False, status := Some (report 11 []),
        state := Online\<rparr>,
      [Emit StatusUpdated (StatusPayload (report 11 []))])"
    by (simp add: handleStatusUpdate_def Let_def stuck_peer_fields object_assign_def report_def)
  have second: "handleStatusUpdate 22000 (report 11 []) stuck_peer =
     (stuck_peer\<lparr>lastHeightUpdate := 22000, stuck := False, status := Some (report 11 [])\<rparr>,
      [Emit StatusUpdated (StatusPayload (report 11 []))])"
    using handleStatusUpdate_not_gated [of 22000 "report 11 []" stuck_peer "Inr []"] off
    by (simp add: Let_def stuck_peer_fields report_def fun_eq_iff)
  from koff first off second on show ?thesis by simp
qed

end
